theory Spec2Isabelle
  imports Main
begin

section \<open>The DOM and JavaScript primitives the directives rely on\<close>

text \<open>
  The directives of \<^verbatim>\<open>table-directives.ts\<close> (stored in
  \<^verbatim>\<open>popover-edit-module.ts\<close>) work on DOM element references. An element
  reference is a number here; \<open>None\<close> of type \<open>elem option\<close> is JavaScript's
  \<^verbatim>\<open>null\<close>.
\<close>

type_synonym elem = nat

text \<open>
  The three selector constants are imported from \<^verbatim>\<open>./constants\<close>, which is not
  among the sources; only their identity matters, so they are the constructors of a datatype.
\<close>

datatype selector = CELL_SELECTOR | ROW_SELECTOR | EDIT_PANE_SELECTOR

text \<open>
  \<^verbatim>\<open>closest\<close> is imported from \<^verbatim>\<open>./polyfill\<close> and
  \<^verbatim>\<open>querySelectorAll\<close> is the browser's: both are parameters of the model,
  collected in a record. \<open>closest d e s\<close> is the nearest element matching \<open>s\<close> at
  or above \<open>e\<close>, or \<open>None\<close>; \<open>querySelectorAll d e s\<close> lists the descendants of
  \<open>e\<close> that match \<open>s\<close> in document order. An \<^verbatim>\<open>OverlayRef\<close> of the
  overlay service is a handle (a number), and \<open>overlayElement d ov\<close> is its pane element
  (\<^verbatim>\<open>overlayRef.overlayElement\<close>).
\<close>

type_synonym overlay = nat

record dom =
  closest :: "elem option \<Rightarrow> selector \<Rightarrow> elem option"
  querySelectorAll :: "elem \<Rightarrow> selector \<Rightarrow> elem list"
  overlayElement :: "overlay \<Rightarrow> elem"

text \<open>
  \<^verbatim>\<open>interface CdkPopoverEditColspan { before?: number; after?: number; }\<close>
  An absent field is \<open>None\<close>. Numbers are integers in this model (fractions, NaN and the
  infinities are left out).
\<close>

record CdkPopoverEditColspan =
  before :: "int option"
  after :: "int option"

text \<open>JavaScript's \<^verbatim>\<open>!v\<close> on an optional number: true for undefined and for 0.\<close>

definition falsy :: "int option \<Rightarrow> bool" where
  "falsy v = (case v of None \<Rightarrow> True | Some n \<Rightarrow> n = 0)"

text \<open>\<^verbatim>\<open>v || 0\<close> on an optional number.\<close>

definition or_zero :: "int option \<Rightarrow> int" where
  "or_zero v = (case v of None \<Rightarrow> 0 | Some n \<Rightarrow> n)"

text \<open>\<^verbatim>\<open>Array.prototype.indexOf\<close>: the first index holding the value, -1 when absent.\<close>

fun indexOf :: "'a list \<Rightarrow> 'a \<Rightarrow> int" where
  "indexOf [] x = - 1"
| "indexOf (y # ys) x =
     (if y = x then 0 else (let i = indexOf ys x in if i < 0 then - 1 else i + 1))"

text \<open>
  \<^verbatim>\<open>Array.prototype.slice(start, end)\<close>: a negative bound counts from the end of
  the array, both bounds are clamped to the array, and an empty range gives the empty array.
\<close>

definition slice :: "'a list \<Rightarrow> int \<Rightarrow> int \<Rightarrow> 'a list" where
  "slice xs start end =
     (let len = int (length xs);
          k = (if start < 0 then max (len + start) 0 else min start len);
          final = (if end < 0 then max (len + end) 0 else min end len)
      in take (nat (final - k)) (drop (nat k) xs))"

text \<open>
  The only exception this file's own code can raise: \<^verbatim>\<open>row.querySelectorAll\<close> on a
  \<^verbatim>\<open>null\<close> row (the source asserts \<^verbatim>\<open>closest(..., ROW_SELECTOR)!\<close>).
\<close>

datatype error = TypeError

section \<open>CdkPopoverEdit: the cells the popover spans\<close>

text \<open>
  \<^verbatim>\<open>
  private _getOverlayCells(): HTMLElement[] {
    const cell = closest(this.elementRef.nativeElement!, CELL_SELECTOR) as HTMLElement;
    if (!this._colspan.before && !this._colspan.after) { return [cell]; }
    const row = closest(this.elementRef.nativeElement!, ROW_SELECTOR)!;
    const rowCells = Array.from(row.querySelectorAll(CELL_SELECTOR)) as HTMLElement[];
    const ownIndex = rowCells.indexOf(cell);
    return rowCells.slice(
        ownIndex - (this._colspan.before || 0), ownIndex + (this._colspan.after || 0) + 1);
  }
  \<close>
  The cast \<^verbatim>\<open>as HTMLElement\<close> does not check anything, so the cell may be
  \<^verbatim>\<open>null\<close> and the result is a list of \<open>elem option\<close>.
\<close>

definition getOverlayCells ::
  "dom \<Rightarrow> elem \<Rightarrow> CdkPopoverEditColspan \<Rightarrow> error + elem option list" where
  "getOverlayCells d nativeElement colspan =
     (let cell = closest d (Some nativeElement) CELL_SELECTOR in
      if falsy (before colspan) \<and> falsy (after colspan) then Inr [cell]
      else
        (case closest d (Some nativeElement) ROW_SELECTOR of
           None \<Rightarrow> Inl TypeError
         | Some row \<Rightarrow>
             (let rowCells = map Some (querySelectorAll d row CELL_SELECTOR);
                  ownIndex = indexOf rowCells cell
              in Inr (slice rowCells
                        (ownIndex - or_zero (before colspan))
                        (ownIndex + or_zero (after colspan) + 1)))))"


section \<open>The streams of the EditEventDispatcher\<close>

text \<open>
  \<^verbatim>\<open>EditEventDispatcher\<close> is imported from \<^verbatim>\<open>./edit-event-dispatcher\<close>,
  which is not among the sources. The directives only call \<^verbatim>\<open>next\<close> on its three
  subjects, so each subject is the list of the values emitted on it so far, oldest first.
  Its derived streams \<^verbatim>\<open>editingCell(element)\<close> and
  \<^verbatim>\<open>hoveringOnRow(element)\<close> deliver booleans; these are inputs of the model.
\<close>

record EditEventDispatcher =
  editing :: "elem option list"
  hovering :: "elem option list"
  mouseMove :: "elem option list"

text \<open>
  A DOM event: its target, its key (for keyboard events) and whether
  \<^verbatim>\<open>stopPropagation()\<close> has been called on it.
\<close>

record event =
  target :: "elem option"
  key :: string
  propagationStopped :: bool

section \<open>CdkEditable\<close>

text \<open>
  The state of a \<^verbatim>\<open>CdkEditable\<close>: its dispatcher, the
  \<^verbatim>\<open>keyObserver\<close> of the focus dispatcher (the keydown events passed to it),
  whether \<^verbatim>\<open>ngAfterViewInit\<close> has subscribed the handlers, and whether
  \<^verbatim>\<open>destroyed\<close> has emitted.
\<close>

record CdkEditable =
  editEventDispatcher :: EditEventDispatcher
  keyObserver :: "event list"
  tableListening :: bool
  tableDestroyed :: bool

definition CdkEditable_ngAfterViewInit :: "CdkEditable \<Rightarrow> CdkEditable" where
  "CdkEditable_ngAfterViewInit s = s\<lparr>tableListening := True\<rparr>"

definition CdkEditable_ngOnDestroy :: "CdkEditable \<Rightarrow> CdkEditable" where
  "CdkEditable_ngOnDestroy s = s\<lparr>tableDestroyed := True\<rparr>"

text \<open>
  Every pipe of \<^verbatim>\<open>_listenForTableEvents\<close> starts with
  \<^verbatim>\<open>takeUntil(this.destroyed)\<close>: an event is observed when the handlers have been
  subscribed and the directive has not been destroyed.
\<close>

definition tableSubscribed :: "CdkEditable \<Rightarrow> bool" where
  "tableSubscribed s = (tableListening s \<and> \<not> tableDestroyed s)"

text \<open>
  \<^verbatim>\<open>
  fromEvent<MouseEvent>(element, 'mouseover').pipe(
      takeUntil(this.destroyed), toClosest(ROW_SELECTOR),
      ).subscribe(this.editEventDispatcher.hovering);
  fromEvent<MouseEvent>(element, 'mouseleave').pipe(
      takeUntil(this.destroyed), mapTo(null),
      ).subscribe(this.editEventDispatcher.hovering);
  fromEvent<KeyboardEvent>(element, 'keyup').pipe(
      takeUntil(this.destroyed), filter(event => event.key === 'Enter'),
      toClosest(CELL_SELECTOR),
      ).subscribe(this.editEventDispatcher.editing);
  fromEvent<KeyboardEvent>(element, 'keydown')
      .pipe(takeUntil(this.destroyed)).subscribe(this.focusDispatcher.keyObserver);
  \<close>
  The mousemove pipe goes through \<^verbatim>\<open>debounceTime(DEFAULT_MOUSE_MOVE_DELAY_MS)\<close>,
  which depends on the clock, and is not part of this model.
\<close>

definition mouseover :: "dom \<Rightarrow> event \<Rightarrow> CdkEditable \<Rightarrow> CdkEditable" where
  "mouseover d ev s =
     (if tableSubscribed s
      then s\<lparr>editEventDispatcher :=
             (editEventDispatcher s)\<lparr>hovering :=
                hovering (editEventDispatcher s) @ [closest d (target ev) ROW_SELECTOR]\<rparr>\<rparr>
      else s)"

definition mouseleave :: "dom \<Rightarrow> event \<Rightarrow> CdkEditable \<Rightarrow> CdkEditable" where
  "mouseleave d ev s =
     (if tableSubscribed s
      then s\<lparr>editEventDispatcher :=
             (editEventDispatcher s)\<lparr>hovering := hovering (editEventDispatcher s) @ [None]\<rparr>\<rparr>
      else s)"

definition keyup :: "dom \<Rightarrow> event \<Rightarrow> CdkEditable \<Rightarrow> CdkEditable" where
  "keyup d ev s =
     (if tableSubscribed s \<and> key ev = ''Enter''
      then s\<lparr>editEventDispatcher :=
             (editEventDispatcher s)\<lparr>editing :=
                editing (editEventDispatcher s) @ [closest d (target ev) CELL_SELECTOR]\<rparr>\<rparr>
      else s)"

definition keydown :: "dom \<Rightarrow> event \<Rightarrow> CdkEditable \<Rightarrow> CdkEditable" where
  "keydown d ev s =
     (if tableSubscribed s then s\<lparr>keyObserver := keyObserver s @ [ev]\<rparr> else s)"

section \<open>CdkEditOpen and CdkEditOpenButton\<close>

text \<open>
  \<^verbatim>\<open>
  openEdit(evt: Event): void {
    this.editEventDispatcher.editing.next(closest(this.elementRef.nativeElement!, CELL_SELECTOR));
    evt.stopPropagation();
  }
  \<close>
  The method changes the dispatcher and the event; both are returned.
\<close>

definition openEdit ::
  "dom \<Rightarrow> elem \<Rightarrow> EditEventDispatcher \<Rightarrow> event \<Rightarrow> EditEventDispatcher \<times> event" where
  "openEdit d nativeElement disp evt =
     (disp\<lparr>editing := editing disp @ [closest d (Some nativeElement) CELL_SELECTOR]\<rparr>,
      evt\<lparr>propagationStopped := True\<rparr>)"

text \<open>
  \<^verbatim>\<open>export class CdkEditOpenButton extends CdkEditOpen {}\<close> adds nothing to the
  class: its click handler is the inherited method.
\<close>

definition CdkEditOpenButton_openEdit ::
  "dom \<Rightarrow> elem \<Rightarrow> EditEventDispatcher \<Rightarrow> event \<Rightarrow> EditEventDispatcher \<times> event" where
  "CdkEditOpenButton_openEdit = openEdit"

section \<open>CdkPopoverEdit: the overlay\<close>

text \<open>
  The overlay, focus-trap and position services belong to the framework. What the directive
  does with them is the sequence of calls it makes, so the state carries the list of the calls
  made so far. A position strategy or a size configuration is computed by the position
  factory from the cells of \<open>getOverlayCells\<close>; the call records these cells.
\<close>

type_synonym template = nat

datatype call =
    OverlayCreate "elem option list"
  | FocusTrapCreate overlay
  | SetAriaRole overlay
  | DetachmentsSubscribe overlay
  | OverlayAttach overlay "template option" "nat option"
  | FocusInitialElementWhenReady overlay
  | OverlayUpdateSize overlay "elem option list"
  | OverlayUpdatePositionStrategy overlay "elem option list"
  | OverlayDetach overlay
  | OverlayDispose overlay
  | ElementFocus elem
  | Uncaught error

fun is_OverlayCreate :: "call \<Rightarrow> bool" where
  "is_OverlayCreate (OverlayCreate cells) = True"
| "is_OverlayCreate c = False"

fun is_OverlayAttach :: "call \<Rightarrow> bool" where
  "is_OverlayAttach (OverlayAttach ov t c) = True"
| "is_OverlayAttach c = False"

fun is_OverlayDetach :: "call \<Rightarrow> bool" where
  "is_OverlayDetach (OverlayDetach ov) = True"
| "is_OverlayDetach c = False"

fun is_OverlayDispose :: "call \<Rightarrow> bool" where
  "is_OverlayDispose (OverlayDispose ov) = True"
| "is_OverlayDispose c = False"


definition count_calls :: "(call \<Rightarrow> bool) \<Rightarrow> call list \<Rightarrow> nat" where
  "count_calls p cs = length (filter p cs)"

text \<open>
  The fields of a \<^verbatim>\<open>CdkPopoverEdit\<close> (\<open>templateContext\<close> is its
  \<^verbatim>\<open>context\<close>), with \<^verbatim>\<open>document.activeElement\<close>
  (which \<^verbatim>\<open>focus()\<close> changes) and the calls made so far. \<open>destroyed\<close> says
  that the subject of that name has emitted, \<open>listening\<close> that the subscriber of the
  editing stream is subscribed.
\<close>

record CdkPopoverEdit =
  nativeElement :: elem
  template :: "template option"
  templateContext :: "nat option"
  colspan :: CdkPopoverEditColspan
  focusTrap :: "overlay option"
  overlayRef :: "overlay option"
  destroyed :: bool
  listening :: bool
  activeElement :: "elem option"
  calls :: "call list"

text \<open>
  An exception leaves the state as it is at the throw: a method returns \<open>Inr\<close> the new
  state, or \<open>Inl\<close> the error with the state reached.
\<close>

type_synonym outcome = "(error \<times> CdkPopoverEdit) + CdkPopoverEdit"

definition call :: "call \<Rightarrow> CdkPopoverEdit \<Rightarrow> CdkPopoverEdit" where
  "call c s = s\<lparr>calls := calls s @ [c]\<rparr>"

text \<open>
  An exception that nothing catches is reported: it is recorded among the calls, after what
  was done before the throw.
\<close>

definition settle :: "outcome \<Rightarrow> CdkPopoverEdit" where
  "settle r = (case r of Inl (e, s) \<Rightarrow> call (Uncaught e) s | Inr s \<Rightarrow> s)"

text \<open>
  \<^verbatim>\<open>
  private _updateOverlaySize(): void {
    this.overlayRef!.updateSize(this.positionFactory.sizeConfigForCells(this._getOverlayCells()));
  }
  \<close>
\<close>

definition updateOverlaySize :: "dom \<Rightarrow> CdkPopoverEdit \<Rightarrow> outcome" where
  "updateOverlaySize d s =
     (case overlayRef s of
        None \<Rightarrow> Inl (TypeError, s)
      | Some ov \<Rightarrow>
          (case getOverlayCells d (nativeElement s) (colspan s) of
             Inl e \<Rightarrow> Inl (e, s)
           | Inr cells \<Rightarrow> Inr (call (OverlayUpdateSize ov cells) s)))"

text \<open>
  \<^verbatim>\<open>
  private _createEditOverlay(): void {
    this.overlayRef = this.overlay.create({
      disposeOnNavigation: true, panelClass: EDIT_PANE_CLASS,
      positionStrategy: this._getPositionStrategy(),
      scrollStrategy: this.overlay.scrollStrategies.reposition(),
    });
    this.focusTrap = this.focusTrapFactory.create(this.overlayRef.overlayElement);
    this.overlayRef.overlayElement.setAttribute('aria-role', 'dialog');
    this.overlayRef.detachments().subscribe(() => {
      this.editEventDispatcher.doneEditingCell(this.elementRef.nativeElement!);
    });
  }
  \<close>
  The position strategy is computed before \<^verbatim>\<open>create\<close> is called. The handle of
  the new overlay is the number of overlays created before it.
\<close>

definition createEditOverlay :: "dom \<Rightarrow> CdkPopoverEdit \<Rightarrow> outcome" where
  "createEditOverlay d s =
     (case getOverlayCells d (nativeElement s) (colspan s) of
        Inl e \<Rightarrow> Inl (e, s)
      | Inr cells \<Rightarrow>
          (let ov = count_calls is_OverlayCreate (calls s)
           in Inr (call (DetachmentsSubscribe ov)
                    (call (SetAriaRole ov)
                      (call (FocusTrapCreate ov)
                        ((call (OverlayCreate cells) s)
                           \<lparr>overlayRef := Some ov, focusTrap := Some ov\<rparr>))))))"

text \<open>
  \<^verbatim>\<open>
  private _showEditOverlay(): void {
    this.overlayRef!.attach(new TemplatePortal(
        this.template!, this.viewContainerRef, {$implicit: this.context}));
    this.focusTrap!.focusInitialElementWhenReady();
    merge(this.scrollDispatcher.scrolled(), this.viewportRuler.change())
        .pipe(startWith(null), takeUntil(this.overlayRef!.detachments()),
              takeUntil(this.destroyed))
        .subscribe(() => { this._updateOverlaySize(); });
  }
  \<close>
  \<^verbatim>\<open>startWith(null)\<close> runs the inner subscriber once at once. When that
  subscriber throws, rxjs ends the inner subscription and reports the error: the exception
  does not leave \<^verbatim>\<open>subscribe\<close>. The later scroll and viewport events are not
  inputs of this model.
\<close>

definition showEditOverlay :: "dom \<Rightarrow> CdkPopoverEdit \<Rightarrow> outcome" where
  "showEditOverlay d s =
     (case overlayRef s of
        None \<Rightarrow> Inl (TypeError, s)
      | Some ov \<Rightarrow>
          (let s1 = call (OverlayAttach ov (template s) (templateContext s)) s in
           case focusTrap s1 of
             None \<Rightarrow> Inl (TypeError, s1)
           | Some ft \<Rightarrow>
               Inr (settle (updateOverlaySize d (call (FocusInitialElementWhenReady ft) s1)))))"

text \<open>
  \<^verbatim>\<open>
  private _maybeReturnFocusToCell(): void {
    if (closest(document.activeElement, EDIT_PANE_SELECTOR) ===
        this.overlayRef!.overlayElement) {
      this.elementRef.nativeElement!.focus();
    }
  }
  \<close>
  The host element has \<^verbatim>\<open>tabIndex 0\<close>, and \<^verbatim>\<open>focus()\<close> makes it the
  active element.
\<close>

definition maybeReturnFocusToCell :: "dom \<Rightarrow> CdkPopoverEdit \<Rightarrow> outcome" where
  "maybeReturnFocusToCell d s =
     (case overlayRef s of
        None \<Rightarrow> Inl (TypeError, s)
      | Some ov \<Rightarrow>
          (if closest d (activeElement s) EDIT_PANE_SELECTOR = Some (overlayElement d ov)
           then Inr ((call (ElementFocus (nativeElement s)) s)
                       \<lparr>activeElement := Some (nativeElement s)\<rparr>)
           else Inr s))"

text \<open>
  The subscriber of \<^verbatim>\<open>_startListeningToEditEvents\<close>:
  \<^verbatim>\<open>
  if (open && this.template) {
    if (!this.overlayRef) { this._createEditOverlay(); }
    this._showEditOverlay();
  } else if (this.overlayRef) {
    this._maybeReturnFocusToCell();
    this.overlayRef.detach();
  }
  \<close>
\<close>

definition onEditingCell :: "dom \<Rightarrow> bool \<Rightarrow> CdkPopoverEdit \<Rightarrow> outcome" where
  "onEditingCell d open s =
     (if open \<and> template s \<noteq> None then
        (case (if overlayRef s = None then createEditOverlay d s else Inr s) of
           Inl es \<Rightarrow> Inl es
         | Inr s1 \<Rightarrow> showEditOverlay d s1)
      else
        (case overlayRef s of
           Some ov \<Rightarrow>
             (case maybeReturnFocusToCell d s of
                Inl es \<Rightarrow> Inl es
              | Inr s1 \<Rightarrow> Inr (call (OverlayDetach ov) s1))
         | None \<Rightarrow> Inr s))"

text \<open>
  \<^verbatim>\<open>
  this.editEventDispatcher.editingCell(this.elementRef.nativeElement!)
      .pipe(takeUntil(this.destroyed)).subscribe((open) => { ... });
  \<close>
  A value of the stream reaches the subscriber between \<^verbatim>\<open>ngAfterViewInit\<close> and
  \<^verbatim>\<open>ngOnDestroy\<close>, as long as the subscriber is subscribed. When the subscriber
  throws, rxjs unsubscribes it and reports the error: the field \<open>listening\<close> becomes
  false and no later value of the stream reaches the subscriber.
\<close>

definition editingCell :: "dom \<Rightarrow> bool \<Rightarrow> CdkPopoverEdit \<Rightarrow> CdkPopoverEdit" where
  "editingCell d open s =
     (if listening s \<and> \<not> destroyed s then
        (case onEditingCell d open s of
           Inl (e, s1) \<Rightarrow> (call (Uncaught e) s1)\<lparr>listening := False\<rparr>
         | Inr s1 \<Rightarrow> s1)
      else s)"

definition ngAfterViewInit :: "CdkPopoverEdit \<Rightarrow> CdkPopoverEdit" where
  "ngAfterViewInit s = s\<lparr>listening := True\<rparr>"

text \<open>
  \<^verbatim>\<open>
  ngOnDestroy(): void {
    this.destroyed.next();
    this.destroyed.complete();
    if (this.overlayRef) { this.overlayRef.dispose(); }
  }
  \<close>
\<close>

definition ngOnDestroy :: "CdkPopoverEdit \<Rightarrow> CdkPopoverEdit" where
  "ngOnDestroy s =
     (let s1 = s\<lparr>destroyed := True\<rparr> in
      case overlayRef s1 of
        Some ov \<Rightarrow> call (OverlayDispose ov) s1
      | None \<Rightarrow> s1)"

text \<open>
  \<^verbatim>\<open>
  set colspan(value: CdkPopoverEditColspan) {
    this._colspan = value;
    if (this.overlayRef) {
      this.overlayRef.updatePositionStrategy(this._getPositionStrategy());
      if (this.overlayRef.hasAttached()) { this._updateOverlaySize(); }
    }
  }
  \<close>
  What \<^verbatim>\<open>hasAttached()\<close> answers is the framework's matter and an argument here.
\<close>

definition set_colspan ::
  "dom \<Rightarrow> CdkPopoverEditColspan \<Rightarrow> bool \<Rightarrow> CdkPopoverEdit \<Rightarrow> outcome" where
  "set_colspan d v hasAttached s =
     (let s1 = s\<lparr>colspan := v\<rparr> in
      case overlayRef s1 of
        None \<Rightarrow> Inr s1
      | Some ov \<Rightarrow>
          (case getOverlayCells d (nativeElement s1) (colspan s1) of
             Inl e \<Rightarrow> Inl (e, s1)
           | Inr cells \<Rightarrow>
               (let s2 = call (OverlayUpdatePositionStrategy ov cells) s1
                in if hasAttached then updateOverlaySize d s2 else Inr s2)))"

text \<open>
  What can happen to a directive between \<^verbatim>\<open>ngAfterViewInit\<close> and
  \<^verbatim>\<open>ngOnDestroy\<close>: a value of its editing stream, a new value of one of its inputs,
  or the focus moving in the document.
\<close>

datatype input =
    EditingCell bool
  | SetTemplate "template option"
  | SetContext "nat option"
  | SetColspan CdkPopoverEditColspan bool
  | FocusMoved "elem option"

fun step :: "dom \<Rightarrow> input \<Rightarrow> CdkPopoverEdit \<Rightarrow> CdkPopoverEdit" where
  "step d (EditingCell open) s = editingCell d open s"
| "step d (SetTemplate t) s = s\<lparr>template := t\<rparr>"
| "step d (SetContext c) s = s\<lparr>templateContext := c\<rparr>"
| "step d (SetColspan v hasAttached) s = settle (set_colspan d v hasAttached s)"
| "step d (FocusMoved e) s = s\<lparr>activeElement := e\<rparr>"

fun run :: "dom \<Rightarrow> input list \<Rightarrow> CdkPopoverEdit \<Rightarrow> CdkPopoverEdit" where
  "run d [] s = s"
| "run d (i # is) s = run d is (step d i s)"

text \<open>
  A directive as its constructor and field initialisers leave it, with any values of its
  inputs (they are bound before \<^verbatim>\<open>ngAfterViewInit\<close>).
\<close>

definition constructed :: "CdkPopoverEdit \<Rightarrow> bool" where
  "constructed s =
     (focusTrap s = None \<and> overlayRef s = None \<and> \<not> destroyed s \<and> \<not> listening s
      \<and> calls s = [])"

text \<open>The calls made between a state and a later one.\<close>

definition new_calls :: "CdkPopoverEdit \<Rightarrow> CdkPopoverEdit \<Rightarrow> call list" where
  "new_calls s s' = drop (length (calls s)) (calls s')"

text \<open>
  The focused element lies in the edit pane of the directive's overlay: its closest edit pane
  is the pane element of the overlay the directive holds.
\<close>

definition focusInPane :: "dom \<Rightarrow> CdkPopoverEdit \<Rightarrow> bool" where
  "focusInPane d s =
     (case overlayRef s of
        None \<Rightarrow> False
      | Some ov \<Rightarrow> closest d (activeElement s) EDIT_PANE_SELECTOR = Some (overlayElement d ov))"


section \<open>CdkRowHoverContent\<close>

text \<open>
  The calls a \<^verbatim>\<open>CdkRowHoverContent\<close> makes on its view container and on its view.
  The handle of a new embedded view is the number of views created before it.
\<close>

type_synonym view = nat

datatype view_call =
    CreateEmbeddedView
  | ViewInsert view
  | ViewDetachIndexOf view
  | ViewDestroy view

fun is_ViewDestroy :: "view_call \<Rightarrow> bool" where
  "is_ViewDestroy (ViewDestroy v) = True"
| "is_ViewDestroy c = False"

record CdkRowHoverContent =
  viewRef :: "view option"
  hoverDestroyed :: bool
  hoverListening :: bool
  viewCalls :: "view_call list"

text \<open>
  The subscriber of \<^verbatim>\<open>_listenForHoverEvents\<close>:
  \<^verbatim>\<open>
  if (isHovering) {
    if (!this.viewRef) {
      this.viewRef = this.viewContainerRef.createEmbeddedView(this.templateRef, {});
    } else {
      this.viewContainerRef.insert(this.viewRef);
    }
  } else if (this.viewRef) {
    this.viewContainerRef.detach(this.viewContainerRef.indexOf(this.viewRef));
  }
  \<close>
\<close>

definition onHoveringOnRow :: "bool \<Rightarrow> CdkRowHoverContent \<Rightarrow> CdkRowHoverContent" where
  "onHoveringOnRow isHovering s =
     (if isHovering then
        (case viewRef s of
           None \<Rightarrow>
             s\<lparr>viewRef := Some (count_list (viewCalls s) CreateEmbeddedView),
               viewCalls := viewCalls s @ [CreateEmbeddedView]\<rparr>
         | Some v \<Rightarrow> s\<lparr>viewCalls := viewCalls s @ [ViewInsert v]\<rparr>)
      else
        (case viewRef s of
           Some v \<Rightarrow> s\<lparr>viewCalls := viewCalls s @ [ViewDetachIndexOf v]\<rparr>
         | None \<Rightarrow> s))"

text \<open>
  \<^verbatim>\<open>
  this.editEventDispatcher.hoveringOnRow(this.elementRef.nativeElement!)
      .pipe(takeUntil(this.destroyed)).subscribe(isHovering => { ... });
  \<close>
\<close>

definition hoveringOnRow :: "bool \<Rightarrow> CdkRowHoverContent \<Rightarrow> CdkRowHoverContent" where
  "hoveringOnRow isHovering s =
     (if hoverListening s \<and> \<not> hoverDestroyed s then onHoveringOnRow isHovering s else s)"

definition CdkRowHoverContent_ngAfterViewInit ::
  "CdkRowHoverContent \<Rightarrow> CdkRowHoverContent" where
  "CdkRowHoverContent_ngAfterViewInit s = s\<lparr>hoverListening := True\<rparr>"

text \<open>
  \<^verbatim>\<open>
  ngOnDestroy(): void {
    this.destroyed.next();
    this.destroyed.complete();
    if (this.viewRef) { this.viewRef.destroy(); }
  }
  \<close>
\<close>

definition CdkRowHoverContent_ngOnDestroy ::
  "CdkRowHoverContent \<Rightarrow> CdkRowHoverContent" where
  "CdkRowHoverContent_ngOnDestroy s =
     (let s1 = s\<lparr>hoverDestroyed := True\<rparr> in
      case viewRef s1 of
        Some v \<Rightarrow> s1\<lparr>viewCalls := viewCalls s1 @ [ViewDestroy v]\<rparr>
      | None \<Rightarrow> s1)"

fun hover_run :: "bool list \<Rightarrow> CdkRowHoverContent \<Rightarrow> CdkRowHoverContent" where
  "hover_run [] s = s"
| "hover_run (h # hs) s = hover_run hs (hoveringOnRow h s)"

text \<open>The directive as its field initialisers leave it.\<close>

definition hover_constructed :: CdkRowHoverContent where
  "hover_constructed =
     \<lparr>viewRef = None, hoverDestroyed = False, hoverListening = False, viewCalls = []\<rparr>"

text \<open>
  What holds of a hover directive from \<^verbatim>\<open>ngAfterViewInit\<close> until
  \<^verbatim>\<open>ngOnDestroy\<close>: no view was destroyed, and the directive holds a view exactly
  when it has created one, which is then the only one.
\<close>

definition hover_inv :: "CdkRowHoverContent \<Rightarrow> bool" where
  "hover_inv s =
     (hoverListening s \<and> \<not> hoverDestroyed s
      \<and> filter is_ViewDestroy (viewCalls s) = []
      \<and> (case viewRef s of
            None \<Rightarrow> count_list (viewCalls s) CreateEmbeddedView = 0
          | Some v \<Rightarrow> v = 0 \<and> count_list (viewCalls s) CreateEmbeddedView = 1))"

section \<open>Examples\<close>

text \<open>
  A table row for examples: element 1 is a row whose cells are 10, 11 and 12, in this order;
  every element at or below a cell has that cell as its closest cell and the row as its
  closest row. Element 20 is a child of cell 11, element 99 is outside the table. The pane
  of the first overlay (handle 0) is element 50, and element 60 lies inside that pane.
\<close>

definition row_closest :: "elem option \<Rightarrow> selector \<Rightarrow> elem option" where
  "row_closest e s =
     (case e of
        None \<Rightarrow> None
      | Some x \<Rightarrow>
          (case s of
             CELL_SELECTOR \<Rightarrow>
               (if x = 10 \<or> x = 11 \<or> x = 12 then Some x
                else if x = 20 then Some 11 else None)
           | ROW_SELECTOR \<Rightarrow>
               (if x = 1 \<or> x = 10 \<or> x = 11 \<or> x = 12 \<or> x = 20 then Some 1 else None)
           | EDIT_PANE_SELECTOR \<Rightarrow>
               (if x = 50 \<or> x = 60 then Some 50 else None)))"

definition row_querySelectorAll :: "elem \<Rightarrow> selector \<Rightarrow> elem list" where
  "row_querySelectorAll e s =
     (if e = 1 \<and> s = CELL_SELECTOR then [10, 11, 12] else [])"

definition row_overlayElement :: "overlay \<Rightarrow> elem" where
  "row_overlayElement ov = 50 + ov"

definition row_dom :: dom where
  "row_dom = \<lparr>closest = row_closest, querySelectorAll = row_querySelectorAll,
               overlayElement = row_overlayElement\<rparr>"


text \<open>
  A directive on cell 11 with template 7 and no colspan, as constructed; the same after
  \<^verbatim>\<open>ngAfterViewInit\<close> and a first open; and the latter once its template input
  has been set to \<^verbatim>\<open>null\<close>.
\<close>

definition new_popover :: CdkPopoverEdit where
  "new_popover =
     \<lparr>nativeElement = 11, template = Some 7, templateContext = None,
      colspan = \<lparr>before = None, after = None\<rparr>, focusTrap = None, overlayRef = None,
      destroyed = False, listening = False, activeElement = None, calls = []\<rparr>"

definition open_popover :: CdkPopoverEdit where
  "open_popover = run row_dom [EditingCell True] (ngAfterViewInit new_popover)"

definition open_popover_without_template :: CdkPopoverEdit where
  "open_popover_without_template =
     run row_dom [EditingCell True, SetTemplate None] (ngAfterViewInit new_popover)"

text \<open>
  A listening directive whose template input is \<^verbatim>\<open>null\<close> from the start, and
  two open popovers: one with the focus on element 60, inside its pane, the other with the
  focus on element 99, outside the pane and the table.
\<close>

definition popover_without_template :: CdkPopoverEdit where
  "popover_without_template = run row_dom [SetTemplate None] (ngAfterViewInit new_popover)"

definition focus_in_pane :: CdkPopoverEdit where
  "focus_in_pane =
     run row_dom [EditingCell True, FocusMoved (Some 60)] (ngAfterViewInit new_popover)"

definition focus_elsewhere :: CdkPopoverEdit where
  "focus_elsewhere =
     run row_dom [EditingCell True, FocusMoved (Some 99)] (ngAfterViewInit new_popover)"

text \<open>
  A directive on element 99, which has no enclosing row, with template 7 and the colspan
  \<^verbatim>\<open>{before: 1}\<close>, as constructed.
\<close>

definition lone_popover :: CdkPopoverEdit where
  "lone_popover =
     \<lparr>nativeElement = 99, template = Some 7, templateContext = None,
      colspan = \<lparr>before = Some 1, after = None\<rparr>, focusTrap = None, overlayRef = None,
      destroyed = False, listening = False, activeElement = None, calls = []\<rparr>"

text \<open>A dispatcher on which nothing was emitted, and a table that is listening.\<close>

definition silent_dispatcher :: EditEventDispatcher where
  "silent_dispatcher = \<lparr>editing = [], hovering = [], mouseMove = []\<rparr>"

definition listening_table :: CdkEditable where
  "listening_table =
     \<lparr>editEventDispatcher = silent_dispatcher, keyObserver = [],
      tableListening = True, tableDestroyed = False\<rparr>"

definition key_event :: "string \<Rightarrow> elem \<Rightarrow> event" where
  "key_event k e = \<lparr>target = Some e, key = k, propagationStopped = False\<rparr>"

section \<open>Facts about the JavaScript primitives\<close>





lemmas row_dom_defs =
  row_dom_def row_closest_def row_querySelectorAll_def row_overlayElement_def

section \<open>The cell range of a colspan\<close>




text \<open>
  Claim C8: the colspan \<^verbatim>\<open>{before: 0, after: 0}\<close> and the empty colspan
  \<^verbatim>\<open>{}\<close> give the same result for every host element, the list holding only the
  origin cell (the closest cell of the host element), since \<^verbatim>\<open>!0\<close> is true.
\<close>

theorem getOverlayCells_zero_is_unset:
  "getOverlayCells d host \<lparr>before = Some 0, after = Some 0\<rparr>
     = getOverlayCells d host \<lparr>before = None, after = None\<rparr>
   \<and> getOverlayCells d host \<lparr>before = None, after = None\<rparr>
     = Inr [closest d (Some host) CELL_SELECTOR]"
  by (simp add: getOverlayCells_def falsy_def)

section \<open>Opening the editor by click or by Enter\<close>

text \<open>
  Claim C2: \<open>openEdit\<close>, also as inherited by \<^verbatim>\<open>CdkEditOpenButton\<close>, emits the
  closest cell of the host element on the editing stream (one value, after those emitted
  before, the other streams untouched) and calls \<^verbatim>\<open>stopPropagation\<close> on the event,
  whose other fields stay as they are.
\<close>

theorem openEdit_emits_cell_and_stops:
  "editing (fst (openEdit d host disp evt))
     = editing disp @ [closest d (Some host) CELL_SELECTOR]
   \<and> hovering (fst (openEdit d host disp evt)) = hovering disp
   \<and> mouseMove (fst (openEdit d host disp evt)) = mouseMove disp
   \<and> propagationStopped (snd (openEdit d host disp evt))
   \<and> target (snd (openEdit d host disp evt)) = target evt
   \<and> key (snd (openEdit d host disp evt)) = key evt
   \<and> CdkEditOpenButton_openEdit d host disp evt = openEdit d host disp evt"
  by (simp add: openEdit_def CdkEditOpenButton_openEdit_def)

text \<open>
  Claim C9: when the host element has no enclosing cell (\<^verbatim>\<open>closest\<close> returns
  \<^verbatim>\<open>null\<close>), \<open>openEdit\<close> emits \<^verbatim>\<open>null\<close> on the editing stream and still
  calls \<^verbatim>\<open>stopPropagation\<close>.
\<close>

theorem openEdit_without_cell:
  assumes "closest d (Some host) CELL_SELECTOR = None"
  shows "editing (fst (openEdit d host disp evt)) = editing disp @ [None]
         \<and> propagationStopped (snd (openEdit d host disp evt))"
  using assms by (simp add: openEdit_def)

theorem openEdit_without_cell_witness:
  "closest row_dom (Some 99) CELL_SELECTOR = None
   \<and> editing (fst (openEdit row_dom 99 silent_dispatcher (key_event [] 99))) = [None]
   \<and> propagationStopped (snd (openEdit row_dom 99 silent_dispatcher (key_event [] 99)))"
proof -
  have h: "closest row_dom (Some 99) CELL_SELECTOR = None"
    by (simp add: row_dom_defs)
  from openEdit_without_cell [OF h, of silent_dispatcher "key_event [] 99"] h show ?thesis
    by (simp add: silent_dispatcher_def)
qed

text \<open>
  Claim C4: a keyup event observed by \<open>CdkEditable\<close> (its handlers subscribed, the
  directive not destroyed) puts the closest cell of the event target on the editing stream
  if and only if the key is \<^verbatim>\<open>'Enter'\<close>; with any other key the state, and so the
  editing stream, is unchanged.
\<close>

theorem keyup_reaches_editing_iff_Enter:
  assumes "tableSubscribed s"
  shows "(editing (editEventDispatcher (keyup d ev s))
            = editing (editEventDispatcher s) @ [closest d (target ev) CELL_SELECTOR])
           = (key ev = ''Enter'')
         \<and> (key ev \<noteq> ''Enter'' \<longrightarrow> keyup d ev s = s)"
  using assms by (simp add: keyup_def)

theorem keyup_reaches_editing_iff_Enter_witness:
  "tableSubscribed listening_table
   \<and> editing (editEventDispatcher (keyup row_dom (key_event ''Enter'' 20) listening_table))
       = [Some 11]
   \<and> keyup row_dom (key_event ''Escape'' 20) listening_table = listening_table"
proof -
  have sub: "tableSubscribed listening_table"
    by (simp add: tableSubscribed_def listening_table_def)
  have esc: "key (key_event ''Escape'' 20) \<noteq> ''Enter''"
    by (simp add: key_event_def)
  from keyup_reaches_editing_iff_Enter [OF sub, of row_dom "key_event ''Enter'' 20"]
  have "editing (editEventDispatcher (keyup row_dom (key_event ''Enter'' 20) listening_table))
          = [Some 11]"
    by (simp add: key_event_def listening_table_def silent_dispatcher_def row_dom_defs)
  moreover from keyup_reaches_editing_iff_Enter [OF sub, of row_dom "key_event ''Escape'' 20"] esc
  have "keyup row_dom (key_event ''Escape'' 20) listening_table = listening_table"
    by blast
  ultimately show ?thesis using sub by blast
qed

section \<open>Hovering over the table\<close>

text \<open>
  The two hover pipes without a delay: a mouseover observed by the table emits the closest
  row of its target on the hovering stream, and a mouseleave emits \<^verbatim>\<open>null\<close>
  there.
\<close>

lemma mouseover_emits_closest_row:
  "tableSubscribed s \<Longrightarrow>
     hovering (editEventDispatcher (mouseover d ev s))
       = hovering (editEventDispatcher s) @ [closest d (target ev) ROW_SELECTOR]"
  by (simp add: mouseover_def)

lemma mouseleave_emits_null:
  "tableSubscribed s \<Longrightarrow>
     hovering (editEventDispatcher (mouseleave d ev s))
       = hovering (editEventDispatcher s) @ [None]"
  by (simp add: mouseleave_def)

section \<open>Facts about the calls of CdkPopoverEdit\<close>

lemma call_fields [simp]:
  "calls (call c s) = calls s @ [c]"
  "overlayRef (call c s) = overlayRef s"
  "focusTrap (call c s) = focusTrap s"
  "template (call c s) = template s"
  "templateContext (call c s) = templateContext s"
  "colspan (call c s) = colspan s"
  "nativeElement (call c s) = nativeElement s"
  "destroyed (call c s) = destroyed s"
  "listening (call c s) = listening s"
  "activeElement (call c s) = activeElement s"
  by (simp_all add: call_def)

lemma count_calls_simps [simp]:
  "count_calls p [] = 0"
  "count_calls p (c # cs) = (if p c then Suc (count_calls p cs) else count_calls p cs)"
  "count_calls p (cs @ cs') = count_calls p cs + count_calls p cs'"
  by (simp_all add: count_calls_def)

text \<open>The effect of a value of the editing stream, case by case.\<close>

lemma editingCell_unsubscribed:
  "\<not> (listening s \<and> \<not> destroyed s) \<Longrightarrow> editingCell d open s = s"
  by (auto simp add: editingCell_def)

lemma editingCell_create_throws:
  assumes "listening s" "\<not> destroyed s" "open" "template s \<noteq> None" "overlayRef s = None"
    and "getOverlayCells d (nativeElement s) (colspan s) = Inl e"
  shows "editingCell d open s = (call (Uncaught e) s)\<lparr>listening := False\<rparr>"
  using assms by (simp add: editingCell_def onEditingCell_def createEditOverlay_def)

lemma editingCell_create:
  assumes "listening s" "\<not> destroyed s" "open" "template s \<noteq> None" "overlayRef s = None"
    and "getOverlayCells d (nativeElement s) (colspan s) = Inr cells"
    and "ov = count_calls is_OverlayCreate (calls s)"
  shows "editingCell d open s =
           call (OverlayUpdateSize ov cells)
             (call (FocusInitialElementWhenReady ov)
               (call (OverlayAttach ov (template s) (templateContext s))
                 (call (DetachmentsSubscribe ov)
                   (call (SetAriaRole ov)
                     (call (FocusTrapCreate ov)
                       ((call (OverlayCreate cells) s)
                          \<lparr>overlayRef := Some ov, focusTrap := Some ov\<rparr>))))))"
  using assms
  by (simp add: editingCell_def onEditingCell_def createEditOverlay_def showEditOverlay_def
        updateOverlaySize_def settle_def Let_def)

lemma editingCell_attach:
  assumes "listening s" "\<not> destroyed s" "open" "template s \<noteq> None" "overlayRef s = Some ov"
    and "focusTrap s = Some ft"
  shows "editingCell d open s =
           (case getOverlayCells d (nativeElement s) (colspan s) of
              Inl e \<Rightarrow> call (Uncaught e)
                 (call (FocusInitialElementWhenReady ft)
                    (call (OverlayAttach ov (template s) (templateContext s)) s))
            | Inr cells \<Rightarrow> call (OverlayUpdateSize ov cells)
                 (call (FocusInitialElementWhenReady ft)
                    (call (OverlayAttach ov (template s) (templateContext s)) s)))"
  using assms
  by (simp add: editingCell_def onEditingCell_def showEditOverlay_def
        updateOverlaySize_def settle_def Let_def split: sum.splits)

lemma editingCell_attach_no_trap:
  assumes "listening s" "\<not> destroyed s" "open" "template s \<noteq> None" "overlayRef s = Some ov"
    and "focusTrap s = None"
  shows "editingCell d open s =
           (call (Uncaught TypeError)
              (call (OverlayAttach ov (template s) (templateContext s)) s))
             \<lparr>listening := False\<rparr>"
  using assms
  by (simp add: editingCell_def onEditingCell_def showEditOverlay_def Let_def)

lemma editingCell_close:
  assumes "listening s" "\<not> destroyed s" "\<not> open \<or> template s = None" "overlayRef s = Some ov"
  shows "editingCell d open s =
           call (OverlayDetach ov)
             (if focusInPane d s
              then (call (ElementFocus (nativeElement s)) s)
                     \<lparr>activeElement := Some (nativeElement s)\<rparr>
              else s)"
  using assms
  by (auto simp add: editingCell_def onEditingCell_def maybeReturnFocusToCell_def settle_def
        focusInPane_def)

lemma editingCell_close_nothing:
  assumes "\<not> open \<or> template s = None" "overlayRef s = None"
  shows "editingCell d open s = s"
  using assms
  by (auto simp add: editingCell_def onEditingCell_def settle_def)








lemma new_calls_self [simp]: "new_calls s s = []"
  by (simp add: new_calls_def)

lemma new_calls_call [simp]: "new_calls s (call c s') = new_calls s s' @ [c]"
  if "length (calls s) \<le> length (calls s')"
  using that by (simp add: new_calls_def)

lemma ngOnDestroy_calls:
  "calls (ngOnDestroy s) =
     calls s @ (case overlayRef s of None \<Rightarrow> [] | Some ov \<Rightarrow> [OverlayDispose ov])"
  by (simp add: ngOnDestroy_def split: option.splits)

lemma editingCell_calls:
  "calls (editingCell d open s) = calls s @ new_calls s (editingCell d open s)"
proof (cases "listening s \<and> \<not> destroyed s")
  case False
  then show ?thesis by (simp add: editingCell_unsubscribed)
next
  case True
  then have sub: "listening s" "\<not> destroyed s" by simp_all
  show ?thesis
  proof (cases "open \<and> template s \<noteq> None")
    case opens: True
    show ?thesis
    proof (cases "overlayRef s")
      case None
      show ?thesis
      proof (cases "getOverlayCells d (nativeElement s) (colspan s)")
        case (Inl e)
        with sub opens None show ?thesis
          by (simp add: editingCell_create_throws new_calls_def)
      next
        case (Inr cells)
        with sub opens None show ?thesis
          by (simp add: editingCell_create new_calls_def)
      qed
    next
      case (Some ov)
      show ?thesis
      proof (cases "focusTrap s")
        case None
        with sub opens Some show ?thesis
          by (simp add: editingCell_attach_no_trap new_calls_def)
      next
        case ft: (Some ft)
        with sub opens Some show ?thesis
          by (simp add: editingCell_attach new_calls_def split: sum.splits)
      qed
    qed
  next
    case closes: False
    then have c: "\<not> open \<or> template s = None" by simp
    show ?thesis
    proof (cases "overlayRef s")
      case None
      with c show ?thesis by (simp add: editingCell_close_nothing)
    next
      case (Some ov)
      from editingCell_close [OF sub c Some] show ?thesis
        by (simp add: new_calls_def)
    qed
  qed
qed

lemma close_new_calls:
  assumes "\<not> open \<or> template s = None"
  shows "new_calls s (editingCell d open s) =
           (if listening s \<and> \<not> destroyed s
            then (if focusInPane d s then [ElementFocus (nativeElement s)] else [])
                 @ (case overlayRef s of None \<Rightarrow> [] | Some ov \<Rightarrow> [OverlayDetach ov])
            else [])"
proof (cases "listening s \<and> \<not> destroyed s")
  case False
  from editingCell_unsubscribed [OF False] False show ?thesis by auto
next
  case True
  then have sub: "listening s" "\<not> destroyed s" by simp_all
  show ?thesis
  proof (cases "overlayRef s")
    case None
    with assms sub show ?thesis
      by (simp add: editingCell_close_nothing focusInPane_def)
  next
    case (Some ov)
    from editingCell_close [OF sub assms Some] sub Some show ?thesis
      by (simp add: new_calls_def)
  qed
qed

lemma open_without_overlay_new_calls:
  assumes "overlayRef s = None" "open" "template s \<noteq> None" "listening s" "\<not> destroyed s"
  shows "count_calls is_OverlayDetach (new_calls s (editingCell d open s)) = 0"
proof (cases "getOverlayCells d (nativeElement s) (colspan s)")
  case (Inl e)
  with assms show ?thesis
    by (simp add: editingCell_create_throws new_calls_def)
next
  case (Inr cells)
  with assms show ?thesis
    by (simp add: editingCell_create new_calls_def)
qed

lemmas example_defs =
  open_popover_def open_popover_without_template_def popover_without_template_def
  focus_in_pane_def focus_elsewhere_def new_popover_def lone_popover_def

lemmas popover_eval_defs = example_defs ngAfterViewInit_def
  editingCell_def onEditingCell_def createEditOverlay_def showEditOverlay_def
  updateOverlaySize_def maybeReturnFocusToCell_def settle_def call_def set_colspan_def
  getOverlayCells_def falsy_def or_zero_def slice_def row_dom_defs new_calls_def
  ngOnDestroy_def Let_def focusInPane_def constructed_def

section \<open>The guards of the edit-event subscriber\<close>

text \<open>
  Claim C3 as stated fails in its last part, which says that no overlay operation is
  performed when the template is \<^verbatim>\<open>null\<close> or the overlay reference is absent. A
  directive that has opened its popover and whose template input was then set to
  \<^verbatim>\<open>null\<close> detaches its overlay at the next value of the stream: the template is
  \<^verbatim>\<open>null\<close> and the guard of the second branch only asks for the overlay reference.
  And a directive with a template and no overlay reference yet creates and attaches the
  overlay at its first open.
\<close>

theorem editingCell_acts_on_null_template_or_absent_overlayRef:
  "template open_popover_without_template = None
   \<and> new_calls open_popover_without_template
        (editingCell row_dom True open_popover_without_template) = [OverlayDetach 0]
   \<and> overlayRef (ngAfterViewInit new_popover) = None
   \<and> new_calls (ngAfterViewInit new_popover)
        (editingCell row_dom True (ngAfterViewInit new_popover))
      = [OverlayCreate [Some 11], FocusTrapCreate 0, SetAriaRole 0, DetachmentsSubscribe 0,
         OverlayAttach 0 (Some 7) None, FocusInitialElementWhenReady 0,
         OverlayUpdateSize 0 [Some 11]]"
  by (simp add: popover_eval_defs)

text \<open>
  Claim C3, amended: for every value of the editing stream delivered to a
  \<open>CdkPopoverEdit\<close>, the calls it makes extend those made before; an overlay is created
  or attached only when the open signal is true and the template is not \<^verbatim>\<open>null\<close>;
  an overlay is detached, and on destroy disposed, only when an overlay reference exists;
  and when the template is \<^verbatim>\<open>null\<close> and the overlay reference is absent, nothing
  is done at all.
\<close>

theorem editingCell_guards:
  "calls (editingCell d open s) = calls s @ new_calls s (editingCell d open s)
   \<and> (\<not> open \<or> template s = None \<longrightarrow>
        count_calls is_OverlayCreate (new_calls s (editingCell d open s)) = 0
        \<and> count_calls is_OverlayAttach (new_calls s (editingCell d open s)) = 0)
   \<and> (overlayRef s = None \<longrightarrow>
        count_calls is_OverlayDetach (new_calls s (editingCell d open s)) = 0
        \<and> count_calls is_OverlayDispose (new_calls s (ngOnDestroy s)) = 0)
   \<and> (template s = None \<and> overlayRef s = None \<longrightarrow>
        editingCell d open s = s \<and> new_calls s (ngOnDestroy s) = [])"
proof -
  have guard_open: "count_calls is_OverlayCreate (new_calls s (editingCell d open s)) = 0
      \<and> count_calls is_OverlayAttach (new_calls s (editingCell d open s)) = 0"
    if "\<not> open \<or> template s = None"
    using close_new_calls [OF that, of d] by (simp split: option.splits)
  have guard_detach: "count_calls is_OverlayDetach (new_calls s (editingCell d open s)) = 0"
    if none: "overlayRef s = None"
  proof (cases "open \<and> template s \<noteq> None")
    case False
    then have "\<not> open \<or> template s = None" by simp
    from close_new_calls [OF this, of d] none show ?thesis by simp
  next
    case True
    show ?thesis
    proof (cases "listening s \<and> \<not> destroyed s")
      case False
      then show ?thesis by (simp add: editingCell_unsubscribed)
    next
      case sub: True
      with True none show ?thesis
        by (simp add: open_without_overlay_new_calls)
    qed
  qed
  have guard_dispose: "new_calls s (ngOnDestroy s) = []" if "overlayRef s = None"
    using that by (simp add: new_calls_def ngOnDestroy_calls)
  have idle: "editingCell d open s = s" if "template s = None" "overlayRef s = None"
    using that by (simp add: editingCell_close_nothing)
  from editingCell_calls guard_open guard_detach guard_dispose idle show ?thesis
    by simp
qed

theorem editingCell_guards_witness:
  "template open_popover_without_template = None
   \<and> count_calls is_OverlayAttach
        (new_calls open_popover_without_template
           (editingCell row_dom True open_popover_without_template)) = 0
   \<and> overlayRef (ngAfterViewInit new_popover) = None
   \<and> count_calls is_OverlayDetach
        (new_calls (ngAfterViewInit new_popover)
           (editingCell row_dom True (ngAfterViewInit new_popover))) = 0
   \<and> template popover_without_template = None
   \<and> overlayRef popover_without_template = None
   \<and> editingCell row_dom True popover_without_template = popover_without_template"
proof -
  have t: "template open_popover_without_template = None"
    by (simp add: popover_eval_defs)
  have r: "overlayRef (ngAfterViewInit new_popover) = None"
    by (simp add: popover_eval_defs)
  have n: "template popover_without_template = None"
    "overlayRef popover_without_template = None"
    by (simp_all add: popover_eval_defs)
  from editingCell_guards [of row_dom True open_popover_without_template] t
  have "count_calls is_OverlayAttach
        (new_calls open_popover_without_template
           (editingCell row_dom True open_popover_without_template)) = 0"
    by blast
  moreover from editingCell_guards [of row_dom True "ngAfterViewInit new_popover"] r
  have "count_calls is_OverlayDetach
        (new_calls (ngAfterViewInit new_popover)
           (editingCell row_dom True (ngAfterViewInit new_popover))) = 0"
    by blast
  moreover from editingCell_guards [of row_dom True popover_without_template] n
  have "editingCell row_dom True popover_without_template = popover_without_template"
    by blast
  ultimately show ?thesis using t r n by blast
qed

section \<open>Returning the focus to the cell\<close>

text \<open>
  Claim C6: when a close reaches a subscribed directive (the open signal is false, or the
  template is \<^verbatim>\<open>null\<close>), the directive calls \<^verbatim>\<open>focus()\<close> on its host
  element if and only if the focused element lies in the edit pane of its overlay (its
  closest edit pane is the overlay's pane element); the host element is then the active
  element, and otherwise the active element is the one it was.
\<close>

theorem focus_returned_iff_in_pane:
  assumes "listening s" "\<not> destroyed s" "\<not> open \<or> template s = None"
  shows "(ElementFocus (nativeElement s) \<in> set (new_calls s (editingCell d open s)))
           = focusInPane d s
         \<and> activeElement (editingCell d open s)
           = (if focusInPane d s then Some (nativeElement s) else activeElement s)"
proof -
  have "(ElementFocus (nativeElement s) \<in> set (new_calls s (editingCell d open s)))
           = focusInPane d s"
    using close_new_calls [OF assms(3), of d] assms(1,2)
    by (simp split: option.splits)
  moreover have "activeElement (editingCell d open s)
           = (if focusInPane d s then Some (nativeElement s) else activeElement s)"
  proof (cases "overlayRef s")
    case None
    with assms show ?thesis
      by (simp add: editingCell_close_nothing focusInPane_def)
  next
    case (Some ov)
    from editingCell_close [OF assms Some] show ?thesis by simp
  qed
  ultimately show ?thesis by simp
qed

theorem focus_returned_iff_in_pane_witness:
  "focusInPane row_dom focus_in_pane
   \<and> activeElement focus_in_pane = Some 60
   \<and> activeElement (editingCell row_dom False focus_in_pane) = Some 11
   \<and> ElementFocus 11 \<in> set (new_calls focus_in_pane (editingCell row_dom False focus_in_pane))
   \<and> \<not> focusInPane row_dom focus_elsewhere
   \<and> activeElement (editingCell row_dom False focus_elsewhere) = Some 99
   \<and> ElementFocus 11
        \<notin> set (new_calls focus_elsewhere (editingCell row_dom False focus_elsewhere))"
proof -
  have a: "listening focus_in_pane" "\<not> destroyed focus_in_pane"
    "focusInPane row_dom focus_in_pane" "nativeElement focus_in_pane = 11"
    "activeElement focus_in_pane = Some 60"
    by (simp_all add: popover_eval_defs)
  have b: "listening focus_elsewhere" "\<not> destroyed focus_elsewhere"
    "\<not> focusInPane row_dom focus_elsewhere" "nativeElement focus_elsewhere = 11"
    "activeElement focus_elsewhere = Some 99"
    by (simp_all add: popover_eval_defs)
  have c: "\<not> False \<or> template s = None" for s :: CdkPopoverEdit
    by simp
  from focus_returned_iff_in_pane [OF a(1,2) c, of row_dom] a(3,4)
  have "activeElement (editingCell row_dom False focus_in_pane) = Some 11
   \<and> ElementFocus 11 \<in> set (new_calls focus_in_pane (editingCell row_dom False focus_in_pane))"
    by simp
  moreover from focus_returned_iff_in_pane [OF b(1,2) c, of row_dom] b(3,4,5)
  have "activeElement (editingCell row_dom False focus_elsewhere) = Some 99
   \<and> ElementFocus 11
        \<notin> set (new_calls focus_elsewhere (editingCell row_dom False focus_elsewhere))"
    by simp
  ultimately show ?thesis using a(3,5) b(3) by blast
qed

section \<open>The life of the overlay\<close>




section \<open>The life of the hover view\<close>

lemma hoveringOnRow_inv: "hover_inv s \<Longrightarrow> hover_inv (hoveringOnRow h s)"
  by (auto simp: hover_inv_def hoveringOnRow_def onHoveringOnRow_def split: option.splits)

lemma hover_run_inv: "hover_inv s \<Longrightarrow> hover_inv (hover_run hs s)"
  by (induction hs arbitrary: s) (simp_all add: hoveringOnRow_inv)

lemma hover_constructed_inv:
  "hover_inv (CdkRowHoverContent_ngAfterViewInit hover_constructed)"
  by (simp add: hover_inv_def CdkRowHoverContent_ngAfterViewInit_def hover_constructed_def)

lemmas hover_eval_defs =
  hoveringOnRow_def onHoveringOnRow_def CdkRowHoverContent_ngAfterViewInit_def
  CdkRowHoverContent_ngOnDestroy_def hover_constructed_def Let_def

text \<open>
  Claim C10: let a \<open>CdkRowHoverContent\<close> go through \<^verbatim>\<open>ngAfterViewInit\<close> and
  then any sequence of hover values, reaching the state \<open>s\<close>. Then at most one embedded
  view is created up to and including \<^verbatim>\<open>ngOnDestroy\<close>; no view is destroyed before
  \<^verbatim>\<open>ngOnDestroy\<close>; the first hover-on creates the view (handle 0), before which a
  hover-off does nothing; every later hover-on inserts that view again and every later
  hover-off detaches it, the directive keeping its reference; \<^verbatim>\<open>ngOnDestroy\<close>
  destroys the view if there is one; and after it hover values no longer reach the directive.
\<close>

theorem hover_view_created_once:
  assumes s: "s = hover_run hs (CdkRowHoverContent_ngAfterViewInit hover_constructed)"
  shows "count_list (viewCalls (CdkRowHoverContent_ngOnDestroy s)) CreateEmbeddedView \<le> 1
    \<and> filter is_ViewDestroy (viewCalls s) = []
    \<and> (count_list (viewCalls s) CreateEmbeddedView = 0 \<longrightarrow>
         viewCalls (hoveringOnRow True s) = viewCalls s @ [CreateEmbeddedView]
         \<and> viewRef (hoveringOnRow True s) = Some 0
         \<and> hoveringOnRow False s = s)
    \<and> (count_list (viewCalls s) CreateEmbeddedView = 1 \<longrightarrow>
         viewRef s = Some 0
         \<and> viewCalls (hoveringOnRow True s) = viewCalls s @ [ViewInsert 0]
         \<and> viewRef (hoveringOnRow True s) = Some 0
         \<and> viewCalls (hoveringOnRow False s) = viewCalls s @ [ViewDetachIndexOf 0]
         \<and> viewRef (hoveringOnRow False s) = Some 0)
    \<and> viewCalls (CdkRowHoverContent_ngOnDestroy s)
        = viewCalls s
          @ (if count_list (viewCalls s) CreateEmbeddedView = 1 then [ViewDestroy 0] else [])
    \<and> hoveringOnRow h (CdkRowHoverContent_ngOnDestroy s) = CdkRowHoverContent_ngOnDestroy s"
proof -
  from s have inv: "hover_inv s"
    by (simp add: hover_run_inv hover_constructed_inv)
  then have sub: "hoverListening s" "\<not> hoverDestroyed s"
    and nodestroy: "filter is_ViewDestroy (viewCalls s) = []"
    by (simp_all add: hover_inv_def)
  from inv have ref: "viewRef s = None \<and> count_list (viewCalls s) CreateEmbeddedView = 0
      \<or> viewRef s = Some 0 \<and> count_list (viewCalls s) CreateEmbeddedView = 1"
    by (auto simp: hover_inv_def split: option.splits)
  have once: "count_list (viewCalls (CdkRowHoverContent_ngOnDestroy s)) CreateEmbeddedView \<le> 1"
    using ref by (auto simp: CdkRowHoverContent_ngOnDestroy_def)
  have first: "viewCalls (hoveringOnRow True s) = viewCalls s @ [CreateEmbeddedView]
         \<and> viewRef (hoveringOnRow True s) = Some 0
         \<and> hoveringOnRow False s = s"
    if "count_list (viewCalls s) CreateEmbeddedView = 0"
    using that ref sub by (auto simp: hoveringOnRow_def onHoveringOnRow_def)
  have again: "viewRef s = Some 0
         \<and> viewCalls (hoveringOnRow True s) = viewCalls s @ [ViewInsert 0]
         \<and> viewRef (hoveringOnRow True s) = Some 0
         \<and> viewCalls (hoveringOnRow False s) = viewCalls s @ [ViewDetachIndexOf 0]
         \<and> viewRef (hoveringOnRow False s) = Some 0"
    if "count_list (viewCalls s) CreateEmbeddedView = 1"
    using that ref sub by (auto simp: hoveringOnRow_def onHoveringOnRow_def)
  have destroy: "viewCalls (CdkRowHoverContent_ngOnDestroy s)
        = viewCalls s
          @ (if count_list (viewCalls s) CreateEmbeddedView = 1 then [ViewDestroy 0] else [])"
    using ref by (auto simp: CdkRowHoverContent_ngOnDestroy_def)
  have after: "hoveringOnRow h (CdkRowHoverContent_ngOnDestroy s)
      = CdkRowHoverContent_ngOnDestroy s"
    by (simp add: hoveringOnRow_def CdkRowHoverContent_ngOnDestroy_def Let_def
          split: option.splits)
  from once nodestroy first again destroy after show ?thesis
    by blast
qed

theorem hover_view_created_once_witness:
  "viewCalls (hoveringOnRow True (CdkRowHoverContent_ngAfterViewInit hover_constructed))
     = [CreateEmbeddedView]
   \<and> viewCalls (hoveringOnRow True
        (hover_run [True, False] (CdkRowHoverContent_ngAfterViewInit hover_constructed)))
     = [CreateEmbeddedView, ViewDetachIndexOf 0, ViewInsert 0]
   \<and> viewCalls (CdkRowHoverContent_ngOnDestroy
        (hover_run [True, False] (CdkRowHoverContent_ngAfterViewInit hover_constructed)))
     = [CreateEmbeddedView, ViewDetachIndexOf 0, ViewDestroy 0]"
proof -
  have zero: "count_list (viewCalls
      (hover_run [] (CdkRowHoverContent_ngAfterViewInit hover_constructed)))
      CreateEmbeddedView = 0"
    by (simp add: hover_eval_defs)
  have one: "count_list (viewCalls
      (hover_run [True, False] (CdkRowHoverContent_ngAfterViewInit hover_constructed)))
      CreateEmbeddedView = 1"
    by (simp add: hover_eval_defs)
  have calls: "viewCalls
      (hover_run [True, False] (CdkRowHoverContent_ngAfterViewInit hover_constructed))
      = [CreateEmbeddedView, ViewDetachIndexOf 0]"
    by (simp add: hover_eval_defs)
  from hover_view_created_once [OF refl, of "[]"] zero
  have "viewCalls (hoveringOnRow True (CdkRowHoverContent_ngAfterViewInit hover_constructed))
     = [CreateEmbeddedView]"
    by (simp add: CdkRowHoverContent_ngAfterViewInit_def hover_constructed_def)
  moreover from hover_view_created_once [OF refl, of "[True, False]"] one calls
  have "viewCalls (hoveringOnRow True
        (hover_run [True, False] (CdkRowHoverContent_ngAfterViewInit hover_constructed)))
     = [CreateEmbeddedView, ViewDetachIndexOf 0, ViewInsert 0]
   \<and> viewCalls (CdkRowHoverContent_ngOnDestroy
        (hover_run [True, False] (CdkRowHoverContent_ngAfterViewInit hover_constructed)))
     = [CreateEmbeddedView, ViewDetachIndexOf 0, ViewDestroy 0]"
    by simp
  ultimately show ?thesis by blast
qed

end
